theory Spec2Isabelle
  imports Complex_Main
begin

section \<open>JavaScript strings and exceptions\<close>

text \<open>
  Strings are modelled as \<^typ>\<open>string\<close>: lists of characters with codes below 256, the
  Latin-1 range of the code units of a JavaScript string.  On this range \<open>toLowerCase\<close>,
  \<open>trim\<close> and the character classes of the regular expressions are those of JavaScript;
  characters beyond it are not modelled.
\<close>

definition upperLetters :: string where
  "upperLetters = ''ABCDEFGHIJKLMNOPQRSTUVWXYZ''
     @ [CHR 0xC0, CHR 0xC1, CHR 0xC2, CHR 0xC3, CHR 0xC4, CHR 0xC5, CHR 0xC6, CHR 0xC7,
        CHR 0xC8, CHR 0xC9, CHR 0xCA, CHR 0xCB, CHR 0xCC, CHR 0xCD, CHR 0xCE, CHR 0xCF,
        CHR 0xD0, CHR 0xD1, CHR 0xD2, CHR 0xD3, CHR 0xD4, CHR 0xD5, CHR 0xD6,
        CHR 0xD8, CHR 0xD9, CHR 0xDA, CHR 0xDB, CHR 0xDC, CHR 0xDD, CHR 0xDE]"

definition lowerLetters :: string where
  "lowerLetters = ''abcdefghijklmnopqrstuvwxyz''
     @ [CHR 0xE0, CHR 0xE1, CHR 0xE2, CHR 0xE3, CHR 0xE4, CHR 0xE5, CHR 0xE6, CHR 0xE7,
        CHR 0xE8, CHR 0xE9, CHR 0xEA, CHR 0xEB, CHR 0xEC, CHR 0xED, CHR 0xEE, CHR 0xEF,
        CHR 0xF0, CHR 0xF1, CHR 0xF2, CHR 0xF3, CHR 0xF4, CHR 0xF5, CHR 0xF6,
        CHR 0xF8, CHR 0xF9, CHR 0xFA, CHR 0xFB, CHR 0xFC, CHR 0xFD, CHR 0xFE]"

definition lowerChar :: "char \<Rightarrow> char" where
  "lowerChar c =
     (case map_of (zip upperLetters lowerLetters) c of
        Some l \<Rightarrow> l
      | None \<Rightarrow> c)"

definition toLowerCase :: "string \<Rightarrow> string" where
  "toLowerCase s = map lowerChar s"

definition startsWith :: "string \<Rightarrow> string \<Rightarrow> bool" where
  "startsWith s p = (take (length p) s = p)"

definition endsWith :: "string \<Rightarrow> string \<Rightarrow> bool" where
  "endsWith s p = (length p \<le> length s \<and> drop (length s - length p) s = p)"

primrec includes_str :: "string \<Rightarrow> string \<Rightarrow> bool" where
  "includes_str [] sub = (sub = [])"
| "includes_str (c # cs) sub = (startsWith (c # cs) sub \<or> includes_str cs sub)"

text \<open>\<open>s.split(sep)\<close> for a one-character separator: never the empty list.\<close>

primrec split_chr :: "char \<Rightarrow> string \<Rightarrow> string list" where
  "split_chr sep [] = [[]]"
| "split_chr sep (c # cs) =
     (if c = sep then [] # split_chr sep cs
      else (case split_chr sep cs of
              [] \<Rightarrow> [[c]]
            | w # ws \<Rightarrow> (c # w) # ws))"

text \<open>Element 1 of an array, \<open>undefined\<close> (here \<open>None\<close>) when the array is shorter.\<close>

fun second :: "'a list \<Rightarrow> 'a option" where
  "second (a # b # rest) = Some b"
| "second other = None"

definition isDigit :: "char \<Rightarrow> bool" where
  "isDigit c = (c \<in> set ''0123456789'')"

text \<open>Exceptions that the modelled functions can raise.\<close>

datatype thrown =
    TypeError
  | PaymentRequiredError string
  | Error string
  | AxiosError "int option"

section \<open>Catalogue and model resolver\<close>

record ModelMetadata =
  model_id :: string
  model_context :: int
  max_output :: "int option"
  pricing_input :: string
  pricing_output :: string
  supported_params :: "string list"
  default_params :: "(string \<times> string) list"
  is_moderated :: bool

text \<open>
  A whitelist is a JavaScript object from family names to model lists; it is kept as the
  list of its entries in the order \<open>Object.values\<close> enumerates them.
\<close>

type_synonym Whitelist = "(string \<times> ModelMetadata list) list"

record ResolveConfig =
  allowPaid :: bool
  allowModerated :: bool

type_synonym ResolveResult = "ModelMetadata option \<times> string option"

definition normalize :: "string \<Rightarrow> string" where
  "normalize str = filter (\<lambda>c. c \<notin> set ''.-/'') (toLowerCase str)"

text \<open>The shortcut table, in the insertion order of its keys, each regular expression as a test.\<close>

definition shortcuts :: "(string \<times> (string \<Rightarrow> bool)) list" where
  "shortcuts =
     [(''openai/'', \<lambda>s. startsWith s ''gpt'' \<or> startsWith s ''codex'' \<or> startsWith s ''chatgpt''
                      \<or> (case s of a # d # rest \<Rightarrow> a = CHR ''o'' \<and> isDigit d | _ \<Rightarrow> False)),
      (''anthropic/'', \<lambda>s. startsWith s ''claude''),
      (''google/'', \<lambda>s. startsWith s ''gemini'' \<or> startsWith s ''gemma''),
      (''x-ai/'', \<lambda>s. startsWith s ''grok''),
      (''deepseek/'', \<lambda>s. startsWith s ''deepseek''),
      (''mistralai/'', \<lambda>s. startsWith s ''mistral''),
      (''z-ai/'', \<lambda>s. startsWith s ''glm''),
      (''amazon/'', \<lambda>s. startsWith s ''nova''),
      (''moonshotai/'', \<lambda>s. startsWith s ''kimi''),
      (''qwen/'', \<lambda>s. includes_str s ''qwen'' \<or> includes_str s ''qwq'')]"

definition detectPrefix :: "string \<Rightarrow> string option" where
  "detectPrefix inputLow =
     (case find (\<lambda>(p, test). test inputLow) shortcuts of
        Some (p, test) \<Rightarrow> Some p
      | None \<Rightarrow> (if includes_str inputLow ''banana'' then Some ''google/'' else None))"

text \<open>
  The callback of the candidate filter.  The name is element 1 of the lowercased id split at
  \<open>/\<close>; on an id without a slash it is \<open>undefined\<close> and \<open>name.includes\<close> raises.
\<close>

definition isCandidate :: "string option \<Rightarrow> string \<Rightarrow> ModelMetadata \<Rightarrow> thrown + bool" where
  "isCandidate providerPrefix inputLow m =
     (if (case providerPrefix of Some p \<Rightarrow> \<not> startsWith (model_id m) p | None \<Rightarrow> False)
      then Inr False
      else (case second (split_chr CHR ''/'' (toLowerCase (model_id m))) of
              None \<Rightarrow> Inl TypeError
            | Some name \<Rightarrow>
                if name = inputLow \<or> includes_str name inputLow then Inr True
                else if normalize name = normalize inputLow then Inr True
                else Inr False))"

text \<open>\<open>Array.filter\<close> and \<open>Array.find\<close> with a callback that may raise.\<close>

fun filterE :: "('a \<Rightarrow> thrown + bool) \<Rightarrow> 'a list \<Rightarrow> thrown + 'a list" where
  "filterE f [] = Inr []"
| "filterE f (x # xs) =
     (case f x of
        Inl e \<Rightarrow> Inl e
      | Inr b \<Rightarrow> (case filterE f xs of
                   Inl e \<Rightarrow> Inl e
                 | Inr ys \<Rightarrow> Inr (if b then x # ys else ys)))"

fun findE :: "('a \<Rightarrow> thrown + bool) \<Rightarrow> 'a list \<Rightarrow> thrown + 'a option" where
  "findE f [] = Inr None"
| "findE f (x # xs) =
     (case f x of
        Inl e \<Rightarrow> Inl e
      | Inr b \<Rightarrow> if b then Inr (Some x) else findE f xs)"

definition allModelsOf :: "Whitelist \<Rightarrow> ModelMetadata list" where
  "allModelsOf whitelist = concat (map snd whitelist)"

definition candidatesOf :: "ModelMetadata list \<Rightarrow> string \<Rightarrow> thrown + ModelMetadata list" where
  "candidatesOf allModels inputLow = filterE (isCandidate (detectPrefix inputLow) inputLow) allModels"

text \<open>The two tiebreak callbacks: here the id is split first and the name lowercased after.\<close>

definition exactSuffix :: "string \<Rightarrow> ModelMetadata \<Rightarrow> thrown + bool" where
  "exactSuffix inputLow m =
     (case second (split_chr CHR ''/'' (model_id m)) of
        None \<Rightarrow> Inl TypeError
      | Some name \<Rightarrow> Inr (toLowerCase name = inputLow))"

definition normalizedSuffix :: "string \<Rightarrow> ModelMetadata \<Rightarrow> thrown + bool" where
  "normalizedSuffix inputLow m =
     (case second (split_chr CHR ''/'' (model_id m)) of
        None \<Rightarrow> Inl TypeError
      | Some name \<Rightarrow> Inr (normalize name = normalize inputLow))"

definition bestMatchOf :: "ModelMetadata list \<Rightarrow> string \<Rightarrow> thrown + ModelMetadata option" where
  "bestMatchOf candidates inputLow =
     (case findE (exactSuffix inputLow) candidates of
        Inl e \<Rightarrow> Inl e
      | Inr (Some m) \<Rightarrow> Inr (Some m)
      | Inr None \<Rightarrow> findE (normalizedSuffix inputLow) candidates)"

text \<open>Step 3 of \<open>resolveModel\<close>: the permission check on the model found.\<close>

definition checkPolicy :: "ModelMetadata \<Rightarrow> ResolveConfig \<Rightarrow> ResolveResult" where
  "checkPolicy foundModel config =
     (let isPaid = (pricing_input foundModel \<noteq> ''0'' \<or> pricing_output foundModel \<noteq> ''0'') in
      if isPaid \<and> \<not> allowPaid config then (None, Some ''prohibit_paid'')
      else if is_moderated foundModel \<and> \<not> allowModerated config then (None, Some ''prohibit_moderated'')
      else (Some foundModel, None))"

definition resolveModel :: "string \<Rightarrow> Whitelist \<Rightarrow> ResolveConfig \<Rightarrow> thrown + ResolveResult" where
  "resolveModel userInput whitelist config =
     (let allModels = allModelsOf whitelist;
          inputLow = toLowerCase userInput
      in case find (\<lambda>m. toLowerCase (model_id m) = inputLow) allModels of
           Some foundModel \<Rightarrow> Inr (checkPolicy foundModel config)
         | None \<Rightarrow>
             (case candidatesOf allModels inputLow of
                Inl e \<Rightarrow> Inl e
              | Inr candidates \<Rightarrow>
                  (case bestMatchOf candidates inputLow of
                     Inl e \<Rightarrow> Inl e
                   | Inr (Some bestMatch) \<Rightarrow> Inr (checkPolicy bestMatch config)
                   | Inr None \<Rightarrow>
                       (case candidates of
                          [single] \<Rightarrow> Inr (checkPolicy single config)
                        | _ \<Rightarrow> Inr (None, Some ''not_found'')))))"

section \<open>Numbers\<close>

text \<open>
  A JavaScript number is \<open>NaN\<close> or a real; comparisons with \<open>NaN\<close> are false and
  arithmetic on it gives \<open>NaN\<close>.  Rounding and the infinities are left out.  Timestamps and
  counters, which the code only ever builds from \<open>Date.now()\<close> and integer constants, are
  integers.
\<close>

datatype jsnum = NaN | Num real

fun js_gt :: "jsnum \<Rightarrow> jsnum \<Rightarrow> bool" where
  "js_gt (Num a) (Num b) = (a > b)"
| "js_gt a b = False"

fun js_ge :: "jsnum \<Rightarrow> jsnum \<Rightarrow> bool" where
  "js_ge (Num a) (Num b) = (a \<ge> b)"
| "js_ge a b = False"

fun js_le :: "jsnum \<Rightarrow> jsnum \<Rightarrow> bool" where
  "js_le (Num a) (Num b) = (a \<le> b)"
| "js_le a b = False"

fun js_sub :: "jsnum \<Rightarrow> jsnum \<Rightarrow> jsnum" where
  "js_sub (Num a) (Num b) = Num (a - b)"
| "js_sub a b = NaN"

fun js_mul :: "jsnum \<Rightarrow> jsnum \<Rightarrow> jsnum" where
  "js_mul (Num a) (Num b) = Num (a * b)"
| "js_mul a b = NaN"

text \<open>Division, used with a divisor that is never zero.\<close>

fun js_div :: "jsnum \<Rightarrow> jsnum \<Rightarrow> jsnum" where
  "js_div (Num a) (Num b) = (if b = 0 then NaN else Num (a / b))"
| "js_div a b = NaN"

fun Math_max :: "jsnum \<Rightarrow> jsnum \<Rightarrow> jsnum" where
  "Math_max (Num a) (Num b) = Num (max a b)"
| "Math_max a b = NaN"

fun Math_floor :: "jsnum \<Rightarrow> jsnum" where
  "Math_floor (Num a) = Num (of_int \<lfloor>a\<rfloor>)"
| "Math_floor NaN = NaN"

text \<open>\<open>x || d\<close> on numbers: \<open>NaN\<close> and zero are falsy.\<close>

fun num_or :: "jsnum \<Rightarrow> jsnum \<Rightarrow> jsnum" where
  "num_or NaN d = d"
| "num_or (Num a) d = (if a = 0 then d else Num a)"

section \<open>Credential store\<close>

datatype tier = unlimited | limited | restricted | deadkey

record OpenRouterKey =
  key :: string
  hash :: string
  modelFamilies :: "string list"
  isDisabled :: bool
  isRevoked :: bool
  promptCount :: int
  lastUsed :: int
  rateLimitedAt :: int
  rateLimitedUntil :: int
  lastChecked :: int
  isFreeTier :: bool
  balance :: jsnum
  creditLimit :: "jsnum option"
  usage :: jsnum
  rpm :: jsnum
  tier :: tier
  tokenUsage :: "(string \<times> jsnum \<times> jsnum) list"

definition RATE_LIMIT_LOCKOUT :: int where
  "RATE_LIMIT_LOCKOUT = 2000"

definition KEY_REUSE_DELAY :: int where
  "KEY_REUSE_DELAY = 500"

text \<open>
  The store \<open>this.keys\<close> is a list of mutable objects; a reference to a stored key is its
  position in the list.  \<open>findIndex\<close> gives the first position whose element passes the test.
\<close>

fun findIndex :: "('a \<Rightarrow> bool) \<Rightarrow> 'a list \<Rightarrow> nat option" where
  "findIndex P [] = None"
| "findIndex P (x # xs) = (if P x then Some 0 else map_option Suc (findIndex P xs))"

definition refsWhere :: "('a \<Rightarrow> bool) \<Rightarrow> 'a list \<Rightarrow> nat list \<Rightarrow> nat list" where
  "refsWhere P keys refs = filter (\<lambda>i. P (keys ! i)) refs"

definition allRefs :: "'a list \<Rightarrow> nat list" where
  "allRefs keys = [0..<length keys]"

text \<open>The callback of the filter for paid models.\<close>

definition paidKeyFilter :: "OpenRouterKey \<Rightarrow> bool" where
  "paidKeyFilter k =
     (if tier k = deadkey then False
      else if js_gt (balance k) (Num 0) then True
      else if tier k = unlimited then True
      else False)"

definition throttle :: "string \<Rightarrow> int \<Rightarrow> OpenRouterKey list \<Rightarrow> thrown + OpenRouterKey list" where
  "throttle h now keys =
     (case findIndex (\<lambda>k. hash k = h) keys of
        None \<Rightarrow> Inl TypeError
      | Some j \<Rightarrow>
          Inr (keys[j := (keys ! j)\<lparr>rateLimitedUntil :=
                 max (rateLimitedUntil (keys ! j)) (now + KEY_REUSE_DELAY)\<rparr>]))"

text \<open>
  The first part of \<open>get(model)\<close>: the references to the keys that can serve the model, or
  the error raised when there is none.
\<close>

definition availableKeysFor :: "string \<Rightarrow> OpenRouterKey list \<Rightarrow> thrown + nat list" where
  "availableKeysFor model keys =
     (let availableKeys = refsWhere (\<lambda>k. \<not> isDisabled k \<and> \<not> isRevoked k) keys (allRefs keys) in
      if availableKeys = [] then Inl (PaymentRequiredError ''No OpenRouter keys available.'')
      else
        let isFreeModel = endsWith model '':free'' in
        if isFreeModel then Inr (refsWhere (\<lambda>k. tier k \<noteq> deadkey) keys availableKeys)
        else
          let availableKeys = refsWhere paidKeyFilter keys availableKeys in
          if availableKeys = [] then Inl (PaymentRequiredError ''No paid OpenRouter keys available.'')
          else Inr availableKeys)"

text \<open>
  \<open>get(model)\<close>.  \<open>prioritizeKeys\<close> is imported from outside these sources and is a
  parameter: given the store and the references to order, it returns references and leaves
  the stored keys as they are.  The two
  readings of the clock (\<open>Date.now()\<close> in \<open>get\<close> and in \<open>throttle\<close>) are parameters as
  well.  The result is the copy handed to the caller and the store after the call.  When
  the ordering returns nothing, \<open>selectedKey\<close> is \<open>undefined\<close> and the assignment to
  \<open>selectedKey.lastUsed\<close> raises; a position outside the store, which refers to no key, is
  treated in the same way.
\<close>

definition get ::
  "(OpenRouterKey list \<Rightarrow> nat list \<Rightarrow> nat list) \<Rightarrow> int \<Rightarrow> int \<Rightarrow> string \<Rightarrow> OpenRouterKey list
     \<Rightarrow> thrown + (OpenRouterKey \<times> OpenRouterKey list)" where
  "get prioritizeKeys now_get now_throttle model keys =
     (case availableKeysFor model keys of
        Inl e \<Rightarrow> Inl e
      | Inr availableKeys \<Rightarrow>
          (case prioritizeKeys keys availableKeys of
             [] \<Rightarrow> Inl TypeError
           | selectedKey # others \<Rightarrow>
               if length keys \<le> selectedKey then Inl TypeError
               else
                 (case throttle (hash (keys ! selectedKey)) now_throttle
                         (keys[selectedKey := (keys ! selectedKey)\<lparr>lastUsed := now_get\<rparr>]) of
                    Inl e \<Rightarrow> Inl e
                  | Inr keys2 \<Rightarrow> Inr (keys2 ! selectedKey, keys2))))"

text \<open>
  A partial key, as the checker passes it to \<open>update\<close>: the fields it can carry, each
  present or absent.
\<close>

record KeyUpdate =
  u_isFreeTier :: "bool option"
  u_balance :: "jsnum option"
  u_creditLimit :: "jsnum option option"
  u_usage :: "jsnum option"
  u_rpm :: "jsnum option"
  u_tier :: "tier option"
  u_isDisabled :: "bool option"
  u_isRevoked :: "bool option"

definition noUpdate :: KeyUpdate where
  "noUpdate = \<lparr>u_isFreeTier = None, u_balance = None, u_creditLimit = None, u_usage = None,
     u_rpm = None, u_tier = None, u_isDisabled = None, u_isRevoked = None\<rparr>"

definition orElse :: "'a option \<Rightarrow> 'a \<Rightarrow> 'a" where
  "orElse v d = (case v of Some x \<Rightarrow> x | None \<Rightarrow> d)"

text \<open>\<open>Object.assign(key, { lastChecked: Date.now(), ...update })\<close>.\<close>

definition assign :: "OpenRouterKey \<Rightarrow> int \<Rightarrow> KeyUpdate \<Rightarrow> OpenRouterKey" where
  "assign k now u =
     k\<lparr>lastChecked := now,
       isFreeTier := orElse (u_isFreeTier u) (isFreeTier k),
       balance := orElse (u_balance u) (balance k),
       creditLimit := orElse (u_creditLimit u) (creditLimit k),
       usage := orElse (u_usage u) (usage k),
       rpm := orElse (u_rpm u) (rpm k),
       tier := orElse (u_tier u) (tier k),
       isDisabled := orElse (u_isDisabled u) (isDisabled k),
       isRevoked := orElse (u_isRevoked u) (isRevoked k)\<rparr>"

definition update :: "string \<Rightarrow> KeyUpdate \<Rightarrow> int \<Rightarrow> OpenRouterKey list \<Rightarrow> thrown + OpenRouterKey list" where
  "update h u now keys =
     (case findIndex (\<lambda>k. hash k = h) keys of
        None \<Rightarrow> Inl TypeError
      | Some j \<Rightarrow> Inr (keys[j := assign (keys ! j) now u]))"

section \<open>Key checker\<close>

text \<open>
  The body of the authorization response after the coercions of the probe:
  \<open>Number(keyData.usage)\<close>, the limit (\<open>None\<close> for \<open>null\<close>, else \<open>Number(keyData.limit)\<close>),
  the truthiness of \<open>is_free_tier\<close>, and the rate limit when it is truthy, as
  \<open>Number(requests)\<close> and, when \<open>interval\<close> is truthy, \<open>parseInt\<close> of it without its \<open>s\<close>.
\<close>

record KeyData =
  kd_usage :: jsnum
  kd_limit :: "jsnum option"
  kd_is_free_tier :: bool
  kd_rate_limit :: "(jsnum \<times> jsnum option) option"

text \<open>
  A settled promise.  For the authorization lookup the value is \<open>data.data\<close>, \<open>None\<close> when
  falsy; for the balance lookup it is \<open>Number(creditsData?.total_credits)\<close>.
\<close>

datatype 'a settled = Fulfilled 'a | Rejected thrown

definition rpmOf :: "KeyData \<Rightarrow> jsnum" where
  "rpmOf keyData =
     (case kd_rate_limit keyData of
        None \<Rightarrow> Num 0
      | Some (requests_raw, interval_raw) \<Rightarrow>
          (let requests = num_or requests_raw (Num 0);
               interval = num_or (case interval_raw of None \<Rightarrow> Num 1 | Some n \<Rightarrow> n) (Num 1)
           in js_mul (Math_floor (js_div requests interval)) (Num 60)))"

definition balanceOf :: "jsnum settled \<Rightarrow> jsnum option \<Rightarrow> jsnum \<Rightarrow> jsnum" where
  "balanceOf creditsResult limit usage' =
     (case creditsResult of
        Fulfilled total_credits \<Rightarrow> num_or total_credits (Num 0)
      | Rejected reason \<Rightarrow>
          (case limit of
             Some l \<Rightarrow> Math_max (Num 0) (js_sub l usage')
           | None \<Rightarrow> Num 999))"

definition tierOf :: "jsnum option \<Rightarrow> jsnum \<Rightarrow> jsnum \<Rightarrow> bool \<Rightarrow> tier" where
  "tierOf limit usage' balance' isFreeTier' =
     (let limitReached = (case limit of None \<Rightarrow> False | Some l \<Rightarrow> js_ge usage' l) in
      if limitReached then deadkey
      else if js_gt balance' (Num 0) then (if limit = None then unlimited else limited)
      else if isFreeTier' then restricted
      else deadkey)"

text \<open>The object that a successful probe passes to \<open>updateKey\<close>.\<close>

definition probeUpdate :: "KeyData \<Rightarrow> jsnum settled \<Rightarrow> KeyUpdate" where
  "probeUpdate keyData creditsResult =
     (let usage' = num_or (kd_usage keyData) (Num 0);
          limit = kd_limit keyData;
          isFreeTier' = kd_is_free_tier keyData;
          rpm' = rpmOf keyData;
          balance' = balanceOf creditsResult limit usage';
          tier' = tierOf limit usage' balance' isFreeTier'
      in \<lparr>u_isFreeTier = Some isFreeTier', u_balance = Some balance', u_creditLimit = Some limit,
          u_usage = Some usage', u_rpm = Some rpm', u_tier = Some tier',
          u_isDisabled = Some (tier' = deadkey), u_isRevoked = Some False\<rparr>)"

text \<open>\<open>updateKey\<close> is the provider's \<open>update\<close>, bound by \<open>init\<close>.\<close>

definition testKeyOrFail ::
  "OpenRouterKey \<Rightarrow> KeyData option settled \<Rightarrow> jsnum settled \<Rightarrow> int \<Rightarrow> OpenRouterKey list
     \<Rightarrow> thrown + OpenRouterKey list" where
  "testKeyOrFail k keyResult creditsResult now keys =
     (case keyResult of
        Rejected reason \<Rightarrow> Inl reason
      | Fulfilled None \<Rightarrow> Inl (Error ''Invalid response from OpenRouter /auth/key'')
      | Fulfilled (Some keyData) \<Rightarrow> update (hash k) (probeUpdate keyData creditsResult) now keys)"

definition update401 :: KeyUpdate where
  "update401 = noUpdate\<lparr>u_isDisabled := Some True, u_isRevoked := Some True, u_tier := Some deadkey\<rparr>"

definition update402 :: KeyUpdate where
  "update402 = noUpdate\<lparr>u_isDisabled := Some True, u_tier := Some deadkey, u_balance := Some (Num 0)\<rparr>"

text \<open>\<open>handleAxiosError\<close>: the argument is the status of \<open>error.response\<close>, when there is one.\<close>

definition handleAxiosError ::
  "OpenRouterKey \<Rightarrow> int option \<Rightarrow> int \<Rightarrow> OpenRouterKey list \<Rightarrow> thrown + OpenRouterKey list" where
  "handleAxiosError k response_status now keys =
     (case response_status of
        None \<Rightarrow> Inr keys
      | Some status \<Rightarrow>
          if status = 401 then update (hash k) update401 now keys
          else if status = 402 then update (hash k) update402 now keys
          else Inr keys)"

section \<open>Requests in the Google AI shape\<close>

text \<open>
  The schema's \<open>generationConfig.maxOutputTokens\<close>:
  \<open>z.coerce.number().int().optional().default(16).transform((v) => Math.min(v, GOOGLEAI_OUTPUT_MAX))\<close>.
  The input is \<open>None\<close> for \<open>undefined\<close> and otherwise the field after the coercion
  \<open>Number(input)\<close>.  \<open>GOOGLEAI_OUTPUT_MAX\<close> is read from the configuration, which is not
  part of these sources, and is a parameter.
\<close>

text \<open>
  The number check rejects \<open>NaN\<close> (expected a number) and \<open>.int()\<close> rejects a number
  that is not an integer (expected an integer).
\<close>

datatype zod_issue = expected_number | expected_integer

definition zod_number_int :: "jsnum \<Rightarrow> zod_issue + int" where
  "zod_number_int v =
     (case v of
        NaN \<Rightarrow> Inl expected_number
      | Num r \<Rightarrow> if r = of_int \<lfloor>r\<rfloor> then Inr \<lfloor>r\<rfloor> else Inl expected_integer)"

definition parseMaxOutputTokens :: "int \<Rightarrow> jsnum option \<Rightarrow> zod_issue + int" where
  "parseMaxOutputTokens GOOGLEAI_OUTPUT_MAX input =
     (case zod_number_int (orElse input (Num 16)) of
        Inl issue \<Rightarrow> Inl issue
      | Inr v \<Rightarrow> Inr (min v GOOGLEAI_OUTPUT_MAX))"

text \<open>
  The \<open>generationConfig\<close> object itself has \<open>.default({})\<close>: when the request carries none,
  the empty object is parsed, every field of which is \<open>undefined\<close>.  Only the field
  \<open>maxOutputTokens\<close> is kept here.
\<close>

definition parseGenerationConfigMaxOutputTokens :: "int \<Rightarrow> jsnum option option \<Rightarrow> zod_issue + int" where
  "parseGenerationConfigMaxOutputTokens GOOGLEAI_OUTPUT_MAX generationConfig =
     parseMaxOutputTokens GOOGLEAI_OUTPUT_MAX (orElse generationConfig None)"







text \<open>\<open>a || b\<close> on optional strings: \<open>undefined\<close> and the empty string are falsy.\<close>

definition str_or :: "string option \<Rightarrow> string option \<Rightarrow> string option" where
  "str_or a b = (case a of Some s \<Rightarrow> (if s = [] then b else Some s) | None \<Rightarrow> b)"








section \<open>Responses in the Anthropic shape\<close>

record ResponseMessage =
  rm_content :: "string option"
  rm_reasoning :: "string option"
  rm_reasoning_content :: "string option"

record Choice =
  ch_message :: "ResponseMessage option"
  ch_finish_reason :: "string option"

record Usage =
  prompt_tokens :: "int option"
  completion_tokens :: "int option"

record OpenAIResponse =
  resp_id :: "string option"
  resp_model :: "string option"
  resp_choices :: "Choice list option"
  resp_usage :: "Usage option"

datatype ContentBlock = Thinking string string | TextBlock string

record AnthropicResponse =
  a_id :: "string option"
  a_type :: string
  a_role :: string
  a_content :: "ContentBlock list"
  a_model :: "string option"
  a_stop_reason :: string
  a_has_stop_sequence :: bool
  a_input_tokens :: int
  a_output_tokens :: int

text \<open>\<open>openaiBody.choices?.[0]\<close>.\<close>

definition firstChoice :: "OpenAIResponse \<Rightarrow> Choice option" where
  "firstChoice openaiBody =
     (case resp_choices openaiBody of
        None \<Rightarrow> None
      | Some [] \<Rightarrow> None
      | Some (c # cs) \<Rightarrow> Some c)"

definition int_or0 :: "int option \<Rightarrow> int" where
  "int_or0 v = orElse v 0"

text \<open>The three assignments to \<open>stopReason\<close>, one after the other.\<close>

definition stopReasonOf :: "string option \<Rightarrow> string" where
  "stopReasonOf finish_reason =
     (let stopReason = ''end_turn'';
          stopReason = (if finish_reason = Some ''length'' then ''max_tokens'' else stopReason);
          stopReason = (if finish_reason = Some ''stop'' then ''end_turn'' else stopReason);
          stopReason = (if finish_reason = Some ''tool_calls'' then ''tool_use'' else stopReason)
      in stopReason)"

definition transformOpenAIToAnthropicResponse :: "OpenAIResponse \<Rightarrow> thrown + AnthropicResponse" where
  "transformOpenAIToAnthropicResponse openaiBody =
     (case firstChoice openaiBody of
        None \<Rightarrow>
          Inr \<lparr>a_id = str_or (resp_id openaiBody) (Some ''error''), a_type = ''message'',
               a_role = ''assistant'', a_content = [], a_model = resp_model openaiBody,
               a_stop_reason = ''error'', a_has_stop_sequence = False,
               a_input_tokens = 0, a_output_tokens = 0\<rparr>
      | Some choice \<Rightarrow>
          (case ch_message choice of
             None \<Rightarrow> Inl TypeError
           | Some message \<Rightarrow>
               (let reasoning = str_or (rm_reasoning message) (rm_reasoning_content message);
                    content = (case str_or reasoning None of
                                 Some r \<Rightarrow> [Thinking r ''openrouter-reasoning-signature'']
                               | None \<Rightarrow> []);
                    content = content @ [TextBlock (orElse (str_or (rm_content message) (Some [])) [])]
                in Inr \<lparr>a_id = resp_id openaiBody, a_type = ''message'', a_role = ''assistant'',
                        a_content = content, a_model = resp_model openaiBody,
                        a_stop_reason = stopReasonOf (ch_finish_reason choice),
                        a_has_stop_sequence = True,
                        a_input_tokens = int_or0 (map_option (\<lambda>u. int_or0 (prompt_tokens u)) (resp_usage openaiBody)),
                        a_output_tokens = int_or0 (map_option (\<lambda>u. int_or0 (completion_tokens u)) (resp_usage openaiBody))\<rparr>)))"

text \<open>The table of the specification for the stop reason.\<close>

fun spec_stop_reason :: "string option \<Rightarrow> string" where
  "spec_stop_reason (Some fr) =
     (if fr = ''length'' then ''max_tokens''
      else if fr = ''stop'' then ''end_turn''
      else if fr = ''tool_calls'' then ''tool_use''
      else ''end_turn'')"
| "spec_stop_reason None = ''end_turn''"

section \<open>The specification's tables\<close>

text \<open>
  The tier of a credential as the specification derives it from the credit limit, the usage,
  the balance and the free-tier flag, in the order of its four rules.
\<close>

fun spec_tier :: "jsnum option \<Rightarrow> jsnum \<Rightarrow> jsnum \<Rightarrow> bool \<Rightarrow> tier" where
  "spec_tier (Some creditLimit') usage' balance' isFreeTier' =
     (if js_ge usage' creditLimit' then deadkey
      else if js_gt balance' (Num 0) then limited
      else if isFreeTier' then restricted
      else deadkey)"
| "spec_tier None usage' balance' isFreeTier' =
     (if js_gt balance' (Num 0) then unlimited
      else if isFreeTier' then restricted
      else deadkey)"

section \<open>Example data\<close>

definition ex_model :: "string \<Rightarrow> string \<Rightarrow> bool \<Rightarrow> ModelMetadata" where
  "ex_model i price moderated =
     \<lparr>model_id = i, model_context = 128000, max_output = None, pricing_input = price,
      pricing_output = price, supported_params = [], default_params = [],
      is_moderated = moderated\<rparr>"

definition ex_config :: ResolveConfig where
  "ex_config = \<lparr>allowPaid = True, allowModerated = False\<rparr>"

definition ex_whitelist :: Whitelist where
  "ex_whitelist =
     [(''OpRout_GPT'', [ex_model ''openai/gpt-4o'' ''0.0000025'' False,
                        ex_model ''openai/gpt-4-turbo'' ''0.00001'' False]),
      (''OpRout_Claude'', [ex_model ''anthropic/claude-3-haiku'' ''0.00000025'' True])]"

definition ex_key :: "string \<Rightarrow> tier \<Rightarrow> jsnum \<Rightarrow> bool \<Rightarrow> int \<Rightarrow> OpenRouterKey" where
  "ex_key h t b d used =
     \<lparr>key = ''sk-'' @ h, hash = h, modelFamilies = [''openrouter''], isDisabled = d,
      isRevoked = False, promptCount = 0, lastUsed = used, rateLimitedAt = 0, rateLimitedUntil = 0,
      lastChecked = 0, isFreeTier = True, balance = b, creditLimit = Some (Num 0), usage = Num 0,
      rpm = Num 0, tier = t, tokenUsage = []\<rparr>"

definition ex_keys :: "OpenRouterKey list" where
  "ex_keys = [ex_key ''or-aaaa'' deadkey (Num 0) True 5,
              ex_key ''or-bbbb'' restricted (Num 0) False 0,
              ex_key ''or-cccc'' limited (Num 5) False 7,
              ex_key ''or-dddd'' unlimited (Num 999) False 3]"

text \<open>Two different secrets whose truncated digests, and so whose hashes, are the same.\<close>

definition ex_keys_same_hash :: "OpenRouterKey list" where
  "ex_keys_same_hash = [ex_key ''or-aaaa'' restricted (Num 0) False 9,
                        (ex_key ''or-aaaa'' restricted (Num 0) False 0)\<lparr>key := ''sk-other''\<rparr>]"

text \<open>An ordering of the kind \<open>prioritizeKeys\<close> is: the key used longest ago first.\<close>

definition ex_prioritizeKeys :: "OpenRouterKey list \<Rightarrow> nat list \<Rightarrow> nat list" where
  "ex_prioritizeKeys keys refs = sort_key (\<lambda>i. lastUsed (keys ! i)) refs"

definition ex_selected :: OpenRouterKey where
  "ex_selected = (ex_key ''or-dddd'' unlimited (Num 999) False 3)\<lparr>lastUsed := 1000, rateLimitedUntil := 1501\<rparr>"

definition ex_keys_after_get :: "OpenRouterKey list" where
  "ex_keys_after_get = [ex_key ''or-aaaa'' deadkey (Num 0) True 5,
                        ex_key ''or-bbbb'' restricted (Num 0) False 0,
                        ex_key ''or-cccc'' limited (Num 5) False 7,
                        ex_selected]"

definition ex_keyData_prepaid :: KeyData where
  "ex_keyData_prepaid =
     \<lparr>kd_usage = Num 100, kd_limit = None, kd_is_free_tier = False,
      kd_rate_limit = Some (Num 20, Some (Num 10))\<rparr>"

definition ex_keyData_monthly :: KeyData where
  "ex_keyData_monthly =
     \<lparr>kd_usage = Num 20, kd_limit = Some (Num 50), kd_is_free_tier = False, kd_rate_limit = None\<rparr>"


definition ex_response :: "Choice list \<Rightarrow> OpenAIResponse" where
  "ex_response cs =
     \<lparr>resp_id = Some ''gen-1'', resp_model = Some ''openai/gpt-4o'', resp_choices = Some cs,
      resp_usage = Some \<lparr>prompt_tokens = Some 12, completion_tokens = Some 34\<rparr>\<rparr>"

definition ex_choice :: Choice where
  "ex_choice =
     \<lparr>ch_message = Some \<lparr>rm_content = Some ''done'', rm_reasoning = None, rm_reasoning_content = None\<rparr>,
      ch_finish_reason = Some ''length''\<rparr>"

section \<open>Helper lemmas\<close>

lemma find_Some_props: "find P xs = Some x \<Longrightarrow> P x \<and> x \<in> set xs"
  by (induction xs) (auto split: if_splits)

lemma find_not_None: "x \<in> set xs \<Longrightarrow> P x \<Longrightarrow> find P xs \<noteq> None"
  by (induction xs) auto

lemma checkPolicy_cases:
  "checkPolicy m c = (Some m, None) \<or> checkPolicy m c = (None, Some ''prohibit_paid'')
     \<or> checkPolicy m c = (None, Some ''prohibit_moderated'')"
  by (simp add: checkPolicy_def Let_def)

section \<open>Model resolver\<close>

text \<open>
  C1 (as amended).  When no catalogued id equals the input case-insensitively and the fuzzy
  search produces a candidate set that is empty, or that has two or more members none of
  which wins the exact-suffix or the normalized-suffix tiebreak, \<open>resolveModel\<close> fails with
  the error kind \<open>not_found\<close>: the same result in both cases, so callers cannot tell
  them apart.  The code has no error kind \<open>ambiguous\<close>.
\<close>

theorem resolveModel_unresolved_is_not_found:
  assumes "find (\<lambda>m. toLowerCase (model_id m) = toLowerCase userInput) (allModelsOf whitelist) = None"
    and "candidatesOf (allModelsOf whitelist) (toLowerCase userInput) = Inr candidates"
    and "candidates = [] \<or>
         (2 \<le> length candidates
          \<and> findE (exactSuffix (toLowerCase userInput)) candidates = Inr None
          \<and> findE (normalizedSuffix (toLowerCase userInput)) candidates = Inr None)"
  shows "resolveModel userInput whitelist config = Inr (None, Some ''not_found'')"
proof -
  have best: "bestMatchOf candidates (toLowerCase userInput) = Inr None"
    using assms(3) by (auto simp: bestMatchOf_def)
  have shape: "(case candidates of [single] \<Rightarrow> Inr (checkPolicy single config)
                 | _ \<Rightarrow> Inr (None, Some ''not_found'')) = (Inr (None, Some ''not_found'') :: thrown + ResolveResult)"
    using assms(3) by (cases candidates; cases "tl candidates") auto
  show ?thesis
    unfolding resolveModel_def Let_def using assms(1,2) best shape by simp
qed

text \<open>
  The amended C1 at the input \<open>GPT-4\<close>: two candidates, \<open>openai/gpt-4o\<close> and
  \<open>openai/gpt-4-turbo\<close>, and no tiebreak.
\<close>

theorem resolveModel_unresolved_is_not_found_witness:
  "find (\<lambda>m. toLowerCase (model_id m) = toLowerCase ''GPT-4'') (allModelsOf ex_whitelist) = None
   \<and> candidatesOf (allModelsOf ex_whitelist) (toLowerCase ''GPT-4'')
       = Inr [ex_model ''openai/gpt-4o'' ''0.0000025'' False, ex_model ''openai/gpt-4-turbo'' ''0.00001'' False]
   \<and> findE (exactSuffix (toLowerCase ''GPT-4''))
         [ex_model ''openai/gpt-4o'' ''0.0000025'' False, ex_model ''openai/gpt-4-turbo'' ''0.00001'' False] = Inr None
   \<and> findE (normalizedSuffix (toLowerCase ''GPT-4''))
         [ex_model ''openai/gpt-4o'' ''0.0000025'' False, ex_model ''openai/gpt-4-turbo'' ''0.00001'' False] = Inr None
   \<and> resolveModel ''GPT-4'' ex_whitelist ex_config = Inr (None, Some ''not_found'')"
proof -
  let ?cs = "[ex_model ''openai/gpt-4o'' ''0.0000025'' False, ex_model ''openai/gpt-4-turbo'' ''0.00001'' False]"
  have h1: "find (\<lambda>m. toLowerCase (model_id m) = toLowerCase ''GPT-4'') (allModelsOf ex_whitelist) = None"
    by code_simp
  have h2: "candidatesOf (allModelsOf ex_whitelist) (toLowerCase ''GPT-4'') = Inr ?cs"
    by code_simp
  have h3: "findE (exactSuffix (toLowerCase ''GPT-4'')) ?cs = Inr None"
    by code_simp
  have h4: "findE (normalizedSuffix (toLowerCase ''GPT-4'')) ?cs = Inr None"
    by code_simp
  have h5: "?cs = [] \<or> (2 \<le> length ?cs
          \<and> findE (exactSuffix (toLowerCase ''GPT-4'')) ?cs = Inr None
          \<and> findE (normalizedSuffix (toLowerCase ''GPT-4'')) ?cs = Inr None)"
    using h3 h4 by simp
  have "resolveModel ''GPT-4'' ex_whitelist ex_config = Inr (None, Some ''not_found'')"
    by (rule resolveModel_unresolved_is_not_found[OF h1 h2 h5])
  with h1 h2 h3 h4 show ?thesis by (intro conjI)
qed

text \<open>
  C1 as stated fails: for an input with no candidate at all the error kind is
  \<open>not_found\<close>, not \<open>ambiguous\<close>.
\<close>

theorem resolveModel_ambiguous_counterexample:
  "find (\<lambda>m. toLowerCase (model_id m) = toLowerCase ''totally-unknown-model'') (allModelsOf ex_whitelist) = None
   \<and> candidatesOf (allModelsOf ex_whitelist) (toLowerCase ''totally-unknown-model'') = Inr []
   \<and> resolveModel ''totally-unknown-model'' ex_whitelist ex_config = Inr (None, Some ''not_found'')
   \<and> resolveModel ''totally-unknown-model'' ex_whitelist ex_config \<noteq> Inr (None, Some ''ambiguous'')"
  by code_simp

text \<open>
  C6.  When the input equals, case-insensitively, the full id of a catalogued model,
  \<open>resolveModel\<close> returns the outcome of the policy check on the catalogued model with that
  id (the first such entry): either that model or one of the policy errors
  \<open>prohibit_paid\<close> and \<open>prohibit_moderated\<close>.  The result does not depend on the fuzzy
  search: it is never \<open>ambiguous\<close> or \<open>not_found\<close>, and never the exception that the
  candidate filter can raise.
\<close>

theorem resolveModel_exact_match:
  assumes "m \<in> set (allModelsOf whitelist)"
    and "toLowerCase (model_id m) = toLowerCase userInput"
  shows "\<exists>found. find (\<lambda>x. toLowerCase (model_id x) = toLowerCase userInput) (allModelsOf whitelist) = Some found
           \<and> toLowerCase (model_id found) = toLowerCase (model_id m)
           \<and> resolveModel userInput whitelist config = Inr (checkPolicy found config)
           \<and> (checkPolicy found config = (Some found, None)
                \<or> checkPolicy found config = (None, Some ''prohibit_paid'')
                \<or> checkPolicy found config = (None, Some ''prohibit_moderated''))
           \<and> resolveModel userInput whitelist config \<noteq> Inr (None, Some ''ambiguous'')
           \<and> resolveModel userInput whitelist config \<noteq> Inr (None, Some ''not_found'')
           \<and> resolveModel userInput whitelist config \<noteq> Inl TypeError"
proof -
  obtain found where f: "find (\<lambda>x. toLowerCase (model_id x) = toLowerCase userInput) (allModelsOf whitelist) = Some found"
    using find_not_None[OF assms(1), of "\<lambda>x. toLowerCase (model_id x) = toLowerCase userInput"] assms(2) by auto
  have idf: "toLowerCase (model_id found) = toLowerCase (model_id m)"
    using find_Some_props[OF f] assms(2) by simp
  have res: "resolveModel userInput whitelist config = Inr (checkPolicy found config)"
    unfolding resolveModel_def Let_def using f by simp
  from checkPolicy_cases[of found config] f idf res show ?thesis
    by auto
qed

text \<open>
  C6 at the input \<open>OPENAI/GPT-4o\<close>, which is the id \<open>openai/gpt-4o\<close> up to case.
\<close>

theorem resolveModel_exact_match_witness:
  "ex_model ''openai/gpt-4o'' ''0.0000025'' False \<in> set (allModelsOf ex_whitelist)
   \<and> toLowerCase (model_id (ex_model ''openai/gpt-4o'' ''0.0000025'' False)) = toLowerCase ''OPENAI/GPT-4o''
   \<and> resolveModel ''OPENAI/GPT-4o'' ex_whitelist ex_config
       = Inr (Some (ex_model ''openai/gpt-4o'' ''0.0000025'' False), None)"
proof -
  let ?m = "ex_model ''openai/gpt-4o'' ''0.0000025'' False"
  have h1: "?m \<in> set (allModelsOf ex_whitelist)"
    by (simp add: allModelsOf_def ex_whitelist_def)
  have h2: "toLowerCase (model_id ?m) = toLowerCase ''OPENAI/GPT-4o''"
    by code_simp
  have f: "find (\<lambda>x. toLowerCase (model_id x) = toLowerCase ''OPENAI/GPT-4o'') (allModelsOf ex_whitelist) = Some ?m"
    by code_simp
  have c: "checkPolicy ?m ex_config = (Some ?m, None)"
    by code_simp
  from resolveModel_exact_match[OF h1 h2, of ex_config] f c
  have "resolveModel ''OPENAI/GPT-4o'' ex_whitelist ex_config = Inr (Some ?m, None)"
    by auto
  with h1 h2 show ?thesis by (intro conjI)
qed

lemma findIndex_Some:
  "findIndex P xs = Some j \<Longrightarrow> j < length xs \<and> P (xs ! j)"
  by (induction xs arbitrary: j) (auto split: if_splits)

lemma findIndex_same_image:
  "map f xs = map f ys \<Longrightarrow> findIndex (\<lambda>x. f x = h) xs = findIndex (\<lambda>x. f x = h) ys"
proof (induction xs arbitrary: ys)
  case Nil
  then show ?case by simp
next
  case (Cons x xs)
  then obtain y ys' where ys: "ys = y # ys'" by (cases ys) auto
  with Cons.prems have "f x = f y" "map f xs = map f ys'" by simp_all
  with Cons.IH[of ys'] ys show ?case by simp
qed

lemma findIndex_distinct:
  "distinct (map f xs) \<Longrightarrow> i < length xs \<Longrightarrow> findIndex (\<lambda>x. f x = f (xs ! i)) xs = Some i"
proof (induction xs arbitrary: i)
  case Nil
  then show ?case by simp
next
  case (Cons x xs)
  show ?case
  proof (cases i)
    case 0
    then show ?thesis by simp
  next
    case (Suc n)
    with Cons.prems have n: "n < length xs" and d: "distinct (map f xs)" and "f x \<notin> f ` set xs"
      by auto
    then have "f x \<noteq> f (xs ! n)"
      by (metis imageI nth_mem)
    with Cons.IH[OF d n] Suc show ?thesis by simp
  qed
qed

lemma refsWhere_mem: "i \<in> set (refsWhere P keys refs) \<Longrightarrow> P (keys ! i) \<and> i \<in> set refs"
  by (simp add: refsWhere_def)

lemma paidKeyFilter_iff:
  "paidKeyFilter k \<longleftrightarrow> tier k \<noteq> deadkey \<and> (js_gt (balance k) (Num 0) \<or> tier k = unlimited)"
  by (auto simp: paidKeyFilter_def)

lemma js_gt_not_le: "js_gt a b \<Longrightarrow> \<not> js_le a b"
  by (cases a; cases b) auto

lemma availableKeysFor_paid:
  assumes "availableKeysFor model keys = Inr refs" and "\<not> endsWith model '':free''"
  shows "\<exists>rs. refs = refsWhere paidKeyFilter keys rs"
  using assms unfolding availableKeysFor_def Let_def
  by (simp split: if_splits) blast

text \<open>What a call of \<open>get\<close> that returns has done.\<close>

lemma get_shape:
  assumes "get prioritizeKeys n1 n2 model keys = Inr (k, keys')"
  shows "\<exists>i j refs rest. i < length keys \<and> j < length keys
           \<and> findIndex (\<lambda>x. hash x = hash (keys ! i)) keys = Some j
           \<and> keys' = (keys[i := (keys ! i)\<lparr>lastUsed := n1\<rparr>])
                        [j := ((keys[i := (keys ! i)\<lparr>lastUsed := n1\<rparr>]) ! j)\<lparr>rateLimitedUntil :=
                            max (rateLimitedUntil ((keys[i := (keys ! i)\<lparr>lastUsed := n1\<rparr>]) ! j)) (n2 + KEY_REUSE_DELAY)\<rparr>]
           \<and> k = keys' ! i
           \<and> availableKeysFor model keys = Inr refs
           \<and> prioritizeKeys keys refs = i # rest"
proof -
  obtain refs where av: "availableKeysFor model keys = Inr refs"
    using assms by (cases "availableKeysFor model keys") (simp_all add: get_def)
  obtain i rest where pr: "prioritizeKeys keys refs = i # rest"
    using assms by (cases "prioritizeKeys keys refs") (simp_all add: get_def av)
  let ?keys1 = "keys[i := (keys ! i)\<lparr>lastUsed := n1\<rparr>]"
  have il: "i < length keys"
    using assms by (simp add: get_def av pr split: if_splits)
  have th: "throttle (hash (keys ! i)) n2 ?keys1 = Inr keys'" and kk: "k = keys' ! i"
    using assms il by (simp_all add: get_def av pr split: sum.splits)
  have h1: "map hash ?keys1 = map hash keys"
    using il by (intro nth_equalityI) (auto simp: nth_list_update)
  obtain j where fj: "findIndex (\<lambda>x. hash x = hash (keys ! i)) ?keys1 = Some j"
    and k2: "keys' = ?keys1[j := (?keys1 ! j)\<lparr>rateLimitedUntil :=
                 max (rateLimitedUntil (?keys1 ! j)) (n2 + KEY_REUSE_DELAY)\<rparr>]"
    using th unfolding throttle_def
    by (cases "findIndex (\<lambda>x. hash x = hash (keys ! i)) ?keys1") simp_all
  have fj': "findIndex (\<lambda>x. hash x = hash (keys ! i)) keys = Some j"
    using fj findIndex_same_image[OF h1, of "hash (keys ! i)"] by simp
  have jl: "j < length keys" using findIndex_Some[OF fj'] by simp
  show ?thesis
    apply (rule exI[of _ i], rule exI[of _ j], rule exI[of _ refs], rule exI[of _ rest])
    using il jl fj' k2 kk pr av by simp
qed

lemma get_paid_selected:
  assumes paid: "\<not> endsWith model '':free''"
    and sub: "\<forall>rs. set (prioritizeKeys keys rs) \<subseteq> set rs"
    and g: "get prioritizeKeys n1 n2 model keys = Inr (k, keys')"
  shows "\<exists>i<length keys. paidKeyFilter (keys ! i) \<and> tier k = tier (keys ! i) \<and> balance k = balance (keys ! i)"
proof -
  from get_shape[OF g] obtain i j rest refs where il: "i < length keys" and jl: "j < length keys"
    and k2: "keys' = (keys[i := (keys ! i)\<lparr>lastUsed := n1\<rparr>])
                        [j := ((keys[i := (keys ! i)\<lparr>lastUsed := n1\<rparr>]) ! j)\<lparr>rateLimitedUntil :=
                            max (rateLimitedUntil ((keys[i := (keys ! i)\<lparr>lastUsed := n1\<rparr>]) ! j)) (n2 + KEY_REUSE_DELAY)\<rparr>]"
    and kk: "k = keys' ! i"
    and av: "availableKeysFor model keys = Inr refs"
    and pr: "prioritizeKeys keys refs = i # rest"
    by blast
  from availableKeysFor_paid[OF av paid] obtain rs where rf: "refs = refsWhere paidKeyFilter keys rs"
    by blast
  have "i \<in> set (prioritizeKeys keys refs)"
    unfolding pr by simp
  then have "i \<in> set refs"
    using sub by blast
  then have pf: "paidKeyFilter (keys ! i)"
    unfolding rf using refsWhere_mem by blast
  have "tier k = tier (keys ! i) \<and> balance k = balance (keys ! i)"
    unfolding kk k2 using il jl by (cases "j = i") simp_all
  with pf il show ?thesis by blast
qed

lemma get_returns_ex:
  "get prioritizeKeys n1 n2 model keys = Inr (k, keys') \<Longrightarrow> \<exists>refs. availableKeysFor model keys = Inr refs"
  using get_shape by blast

lemma ex_less_two: "(\<exists>i<Suc (Suc 0). P i) \<longleftrightarrow> P 0 \<or> P (Suc 0)"
  by (auto simp: less_Suc_eq)

lemmas store_eval =
  get_def availableKeysFor_def refsWhere_def allRefs_def ex_keys_def ex_key_def
  ex_prioritizeKeys_def endsWith_def paidKeyFilter_def throttle_def KEY_REUSE_DELAY_def Let_def
  ex_selected_def ex_keys_after_get_def ex_keys_same_hash_def

section \<open>Credential selection\<close>

text \<open>
  C2.  For a model name without the suffix \<open>:free\<close>, every credential that the paid filter
  of \<open>get\<close> retains has a tier other than \<open>deadkey\<close> and has a positive balance or
  the tier \<open>unlimited\<close>; and when \<open>prioritizeKeys\<close> returns only references it was given,
  the credential that \<open>get\<close> returns is such a credential: never \<open>deadkey\<close>, and never
  one with \<open>balance \<le> 0\<close> whose tier is not \<open>unlimited\<close>.
\<close>

theorem get_paid_never_dead:
  assumes "\<not> endsWith model '':free''"
    and "\<forall>rs. set (prioritizeKeys keys rs) \<subseteq> set rs"
    and "get prioritizeKeys now_get now_throttle model keys = Inr (k, keys')"
  shows "tier k \<noteq> deadkey
         \<and> \<not> (js_le (balance k) (Num 0) \<and> tier k \<noteq> unlimited)
         \<and> (js_gt (balance k) (Num 0) \<or> tier k = unlimited)
         \<and> (\<exists>retained. availableKeysFor model keys = Inr retained
               \<and> (\<forall>i \<in> set retained. tier (keys ! i) \<noteq> deadkey
                      \<and> (js_gt (balance (keys ! i)) (Num 0) \<or> tier (keys ! i) = unlimited)))"
proof -
  from get_paid_selected[OF assms] obtain i where "paidKeyFilter (keys ! i)"
    "tier k = tier (keys ! i)" "balance k = balance (keys ! i)" by blast
  then have a: "tier k \<noteq> deadkey" and b: "js_gt (balance k) (Num 0) \<or> tier k = unlimited"
    by (simp_all add: paidKeyFilter_iff)
  have c: "\<not> (js_le (balance k) (Num 0) \<and> tier k \<noteq> unlimited)"
    using b js_gt_not_le by blast
  from get_returns_ex[OF assms(3)] obtain retained where av: "availableKeysFor model keys = Inr retained"
    by blast
  from availableKeysFor_paid[OF av assms(1)] obtain rs where rf: "retained = refsWhere paidKeyFilter keys rs"
    by blast
  have d: "\<forall>i \<in> set retained. tier (keys ! i) \<noteq> deadkey
                      \<and> (js_gt (balance (keys ! i)) (Num 0) \<or> tier (keys ! i) = unlimited)"
    unfolding rf using refsWhere_mem[of _ paidKeyFilter keys rs] by (simp add: paidKeyFilter_iff)
  show ?thesis using a b c av d by blast
qed

text \<open>
  C2 on a store of four keys, for the paid model \<open>openai/gpt-4o\<close>: the dead key and the
  key without balance are passed over, and of the two others the one used longest ago is
  returned.
\<close>

theorem get_paid_never_dead_witness:
  "\<not> endsWith ''openai/gpt-4o'' '':free''
   \<and> (\<forall>rs. set (ex_prioritizeKeys ex_keys rs) \<subseteq> set rs)
   \<and> get ex_prioritizeKeys 1000 1001 ''openai/gpt-4o'' ex_keys = Inr (ex_selected, ex_keys_after_get)
   \<and> availableKeysFor ''openai/gpt-4o'' ex_keys = Inr [2, 3]
   \<and> tier ex_selected \<noteq> deadkey
   \<and> (js_gt (balance ex_selected) (Num 0) \<or> tier ex_selected = unlimited)"
proof -
  have h1: "\<not> endsWith ''openai/gpt-4o'' '':free''"
    by (simp add: endsWith_def)
  have h2: "\<forall>rs. set (ex_prioritizeKeys ex_keys rs) \<subseteq> set rs"
    by (simp add: ex_prioritizeKeys_def)
  have h3: "get ex_prioritizeKeys 1000 1001 ''openai/gpt-4o'' ex_keys = Inr (ex_selected, ex_keys_after_get)"
    by (simp add: store_eval)
  have h4: "availableKeysFor ''openai/gpt-4o'' ex_keys = Inr [2, 3]"
    by (simp add: store_eval)
  from get_paid_never_dead[OF h1 h2 h3]
  have "tier ex_selected \<noteq> deadkey"
    and "js_gt (balance ex_selected) (Num 0) \<or> tier ex_selected = unlimited"
    by blast+
  with h1 h2 h3 h4 show ?thesis by (intro conjI)
qed

text \<open>
  C8 (as amended).  A call of \<open>get\<close> that returns has set \<open>lastUsed\<close> of the chosen
  stored key to the clock reading of \<open>get\<close>, and has set \<open>rateLimitedUntil\<close> of the
  first stored key whose hash is the hash of the chosen key to the maximum of its value and
  the clock reading of \<open>throttle\<close> plus 500 ms; the key handed to the caller is a copy of
  the chosen stored key after both changes; nothing else in the store changes.  In a store
  whose keys have pairwise distinct hashes that first key is the chosen key: exactly the two
  fields of the chosen key change, and every other stored key is as before.
\<close>

theorem get_frame:
  assumes "get prioritizeKeys now_get now_throttle model keys = Inr (k, keys')"
  shows "\<exists>i j. i < length keys \<and> j < length keys
           \<and> findIndex (\<lambda>x. hash x = hash (keys ! i)) keys = Some j
           \<and> keys' = (keys[i := (keys ! i)\<lparr>lastUsed := now_get\<rparr>])
                        [j := ((keys[i := (keys ! i)\<lparr>lastUsed := now_get\<rparr>]) ! j)\<lparr>rateLimitedUntil :=
                            max (rateLimitedUntil (keys ! j)) (now_throttle + 500)\<rparr>]
           \<and> k = keys' ! i
           \<and> (\<forall>l<length keys. l \<noteq> i \<longrightarrow> l \<noteq> j \<longrightarrow> keys' ! l = keys ! l)
           \<and> (distinct (map hash keys) \<longrightarrow>
                 j = i
                 \<and> keys' = keys[i := (keys ! i)\<lparr>lastUsed := now_get,
                              rateLimitedUntil := max (rateLimitedUntil (keys ! i)) (now_throttle + 500)\<rparr>]
                 \<and> (\<forall>l<length keys. l \<noteq> i \<longrightarrow> keys' ! l = keys ! l))"
proof -
  from get_shape[OF assms] obtain i j where il: "i < length keys" and jl: "j < length keys"
    and fj: "findIndex (\<lambda>x. hash x = hash (keys ! i)) keys = Some j"
    and k2: "keys' = (keys[i := (keys ! i)\<lparr>lastUsed := now_get\<rparr>])
                        [j := ((keys[i := (keys ! i)\<lparr>lastUsed := now_get\<rparr>]) ! j)\<lparr>rateLimitedUntil :=
                            max (rateLimitedUntil ((keys[i := (keys ! i)\<lparr>lastUsed := now_get\<rparr>]) ! j)) (now_throttle + KEY_REUSE_DELAY)\<rparr>]"
    and kk: "k = keys' ! i"
    by blast
  have r: "rateLimitedUntil ((keys[i := (keys ! i)\<lparr>lastUsed := now_get\<rparr>]) ! j) = rateLimitedUntil (keys ! j)"
    using il jl by (cases "j = i") simp_all
  have eq: "keys' = (keys[i := (keys ! i)\<lparr>lastUsed := now_get\<rparr>])
                        [j := ((keys[i := (keys ! i)\<lparr>lastUsed := now_get\<rparr>]) ! j)\<lparr>rateLimitedUntil :=
                            max (rateLimitedUntil (keys ! j)) (now_throttle + 500)\<rparr>]"
    using k2 unfolding r by (simp add: KEY_REUSE_DELAY_def)
  have others: "\<forall>l<length keys. l \<noteq> i \<longrightarrow> l \<noteq> j \<longrightarrow> keys' ! l = keys ! l"
    unfolding eq by simp
  have dist: "j = i
                 \<and> keys' = keys[i := (keys ! i)\<lparr>lastUsed := now_get,
                              rateLimitedUntil := max (rateLimitedUntil (keys ! i)) (now_throttle + 500)\<rparr>]
                 \<and> (\<forall>l<length keys. l \<noteq> i \<longrightarrow> keys' ! l = keys ! l)"
    if d: "distinct (map hash keys)"
  proof -
    have ji: "j = i"
      using fj findIndex_distinct[OF d il] by simp
    have e2: "keys' = keys[i := (keys ! i)\<lparr>lastUsed := now_get,
                              rateLimitedUntil := max (rateLimitedUntil (keys ! i)) (now_throttle + 500)\<rparr>]"
      unfolding eq ji using il by simp
    have "\<forall>l<length keys. l \<noteq> i \<longrightarrow> keys' ! l = keys ! l"
      unfolding e2 by simp
    with ji e2 show ?thesis by (intro conjI)
  qed
  from dist have dist': "distinct (map hash keys) \<longrightarrow>
                 j = i
                 \<and> keys' = keys[i := (keys ! i)\<lparr>lastUsed := now_get,
                              rateLimitedUntil := max (rateLimitedUntil (keys ! i)) (now_throttle + 500)\<rparr>]
                 \<and> (\<forall>l<length keys. l \<noteq> i \<longrightarrow> keys' ! l = keys ! l)"
    by (rule impI)
  show ?thesis
    apply (rule exI[of _ i], rule exI[of _ j])
    using il jl fj eq kk others dist' by (intro conjI)
qed

text \<open>
  The amended C8 on the store of four keys, whose hashes are distinct, for the free model
  \<open>openai/gpt-4o:free\<close>: the key at position 1 is chosen and only it changes.
\<close>

theorem get_frame_witness:
  "distinct (map hash ex_keys)
   \<and> get ex_prioritizeKeys 1000 1001 ''openai/gpt-4o:free'' ex_keys
       = Inr ((ex_keys ! 1)\<lparr>lastUsed := 1000, rateLimitedUntil := 1501\<rparr>,
              ex_keys[1 := (ex_keys ! 1)\<lparr>lastUsed := 1000, rateLimitedUntil := 1501\<rparr>])
   \<and> (\<exists>i<length ex_keys.
           ex_keys[1 := (ex_keys ! 1)\<lparr>lastUsed := 1000, rateLimitedUntil := 1501\<rparr>]
             = ex_keys[i := (ex_keys ! i)\<lparr>lastUsed := 1000,
                      rateLimitedUntil := max (rateLimitedUntil (ex_keys ! i)) (1001 + 500)\<rparr>])"
proof -
  have h1: "distinct (map hash ex_keys)"
    by (simp add: ex_keys_def ex_key_def)
  have h2: "get ex_prioritizeKeys 1000 1001 ''openai/gpt-4o:free'' ex_keys
       = Inr ((ex_keys ! 1)\<lparr>lastUsed := 1000, rateLimitedUntil := 1501\<rparr>,
              ex_keys[1 := (ex_keys ! 1)\<lparr>lastUsed := 1000, rateLimitedUntil := 1501\<rparr>])"
    by (simp add: store_eval)
  from get_frame[OF h2] h1
  have "\<exists>i<length ex_keys.
           ex_keys[1 := (ex_keys ! 1)\<lparr>lastUsed := 1000, rateLimitedUntil := 1501\<rparr>]
             = ex_keys[i := (ex_keys ! i)\<lparr>lastUsed := 1000,
                      rateLimitedUntil := max (rateLimitedUntil (ex_keys ! i)) (1001 + 500)\<rparr>]"
    by blast
  with h1 h2 show ?thesis by (intro conjI)
qed

text \<open>
  C8 as stated fails on a store of two keys with the same hash.  The key at position 1 is
  chosen and gets \<open>lastUsed\<close>, but \<open>throttle\<close> finds the key at position 0: the copy
  handed to the caller still has \<open>rateLimitedUntil = 0\<close>, a key other than the chosen one
  has changed, and no position of the store has received both changes.
\<close>

theorem get_frame_counterexample:
  "get ex_prioritizeKeys 1000 1001 ''openai/gpt-4o:free'' ex_keys_same_hash
     = Inr ((ex_keys_same_hash ! 1)\<lparr>lastUsed := 1000\<rparr>,
            [(ex_keys_same_hash ! 0)\<lparr>rateLimitedUntil := 1501\<rparr>,
             (ex_keys_same_hash ! 1)\<lparr>lastUsed := 1000\<rparr>])
   \<and> rateLimitedUntil ((ex_keys_same_hash ! 1)\<lparr>lastUsed := 1000\<rparr>) = 0
   \<and> max (rateLimitedUntil (ex_keys_same_hash ! 1)) (1001 + 500) = 1501
   \<and> (ex_keys_same_hash ! 0)\<lparr>rateLimitedUntil := 1501\<rparr> \<noteq> ex_keys_same_hash ! 0
   \<and> \<not> (\<exists>i<length ex_keys_same_hash.
            [(ex_keys_same_hash ! 0)\<lparr>rateLimitedUntil := 1501\<rparr>,
             (ex_keys_same_hash ! 1)\<lparr>lastUsed := 1000\<rparr>]
              = ex_keys_same_hash[i := (ex_keys_same_hash ! i)\<lparr>lastUsed := 1000,
                   rateLimitedUntil := max (rateLimitedUntil (ex_keys_same_hash ! i)) (1001 + 500)\<rparr>])"
proof -
  have g: "get ex_prioritizeKeys 1000 1001 ''openai/gpt-4o:free'' ex_keys_same_hash
     = Inr ((ex_keys_same_hash ! 1)\<lparr>lastUsed := 1000\<rparr>,
            [(ex_keys_same_hash ! 0)\<lparr>rateLimitedUntil := 1501\<rparr>,
             (ex_keys_same_hash ! 1)\<lparr>lastUsed := 1000\<rparr>])"
    by (simp add: store_eval)
  have len: "length ex_keys_same_hash = Suc (Suc 0)"
    by (simp add: ex_keys_same_hash_def)
  have a: "rateLimitedUntil ((ex_keys_same_hash ! 1)\<lparr>lastUsed := 1000\<rparr>) = 0"
    and b: "max (rateLimitedUntil (ex_keys_same_hash ! 1)) (1001 + 500) = 1501"
    and c: "(ex_keys_same_hash ! 0)\<lparr>rateLimitedUntil := 1501\<rparr> \<noteq> ex_keys_same_hash ! 0"
    by (simp_all add: store_eval)
  have d: "\<not> (\<exists>i<length ex_keys_same_hash.
            [(ex_keys_same_hash ! 0)\<lparr>rateLimitedUntil := 1501\<rparr>,
             (ex_keys_same_hash ! 1)\<lparr>lastUsed := 1000\<rparr>]
              = ex_keys_same_hash[i := (ex_keys_same_hash ! i)\<lparr>lastUsed := 1000,
                   rateLimitedUntil := max (rateLimitedUntil (ex_keys_same_hash ! i)) (1001 + 500)\<rparr>])"
    unfolding len ex_less_two by (simp add: store_eval)
  from g a b c d show ?thesis by (intro conjI)
qed

lemma update_shape:
  assumes "update h u now keys = Inr keys'"
  shows "\<exists>j<length keys. findIndex (\<lambda>x. hash x = h) keys = Some j
           \<and> keys' = keys[j := assign (keys ! j) now u]"
proof -
  obtain j where fj: "findIndex (\<lambda>x. hash x = h) keys = Some j"
    using assms by (cases "findIndex (\<lambda>x. hash x = h) keys") (simp_all add: update_def)
  have "keys' = keys[j := assign (keys ! j) now u]"
    using assms by (simp add: update_def fj)
  with fj findIndex_Some[OF fj] show ?thesis by blast
qed

lemma tierOf_spec: "tierOf limit u b f = spec_tier limit u b f"
  by (cases limit) (simp_all add: tierOf_def)

lemma assign_probeUpdate:
  "assign k now (probeUpdate kd cr) =
     k\<lparr>lastChecked := now,
       isFreeTier := kd_is_free_tier kd,
       balance := balanceOf cr (kd_limit kd) (num_or (kd_usage kd) (Num 0)),
       creditLimit := kd_limit kd,
       usage := num_or (kd_usage kd) (Num 0),
       rpm := rpmOf kd,
       tier := tierOf (kd_limit kd) (num_or (kd_usage kd) (Num 0))
                 (balanceOf cr (kd_limit kd) (num_or (kd_usage kd) (Num 0))) (kd_is_free_tier kd),
       isDisabled := (tierOf (kd_limit kd) (num_or (kd_usage kd) (Num 0))
                 (balanceOf cr (kd_limit kd) (num_or (kd_usage kd) (Num 0))) (kd_is_free_tier kd) = deadkey),
       isRevoked := False\<rparr>"
  by (simp add: assign_def probeUpdate_def Let_def orElse_def)

lemma testKeyOrFail_shape:
  assumes "testKeyOrFail k keyResult cr now keys = Inr keys'"
  shows "\<exists>kd. keyResult = Fulfilled (Some kd) \<and> update (hash k) (probeUpdate kd cr) now keys = Inr keys'"
  using assms unfolding testKeyOrFail_def
  by (cases keyResult) (auto split: option.splits)

lemma assign_inv:
  assumes "u = probeUpdate kd cr \<or> u = update401 \<or> u = update402"
  shows "tier (assign k now u) = deadkey \<longrightarrow> isDisabled (assign k now u)"
proof -
  have p: "tier (assign k now (probeUpdate kd cr)) = deadkey \<longrightarrow> isDisabled (assign k now (probeUpdate kd cr))"
    unfolding assign_probeUpdate by simp
  have a: "isDisabled (assign k now update401)" and b: "isDisabled (assign k now update402)"
    by (simp_all add: assign_def update401_def update402_def noUpdate_def orElse_def)
  show ?thesis using assms p a b by blast
qed

lemmas checker_eval =
  testKeyOrFail_def handleAxiosError_def update_def probeUpdate_def assign_def orElse_def
  rpmOf_def balanceOf_def tierOf_def update401_def update402_def noUpdate_def Let_def
  ex_keys_def ex_key_def ex_keyData_prepaid_def ex_keyData_monthly_def

section \<open>Key checker\<close>

text \<open>
  C3.  A probe that succeeds writes to the credential the fetched credit limit, usage,
  balance and free-tier flag, and a tier that is derived from them in the order of the
  specification: \<open>deadkey\<close> when the limit is not null and the usage has reached it; else,
  with a positive balance, \<open>unlimited\<close> when the limit is null and \<open>limited\<close>
  otherwise; else \<open>restricted\<close> on the free tier; else \<open>deadkey\<close>.  The same update
  sets \<open>isDisabled\<close> to whether the tier is \<open>deadkey\<close> and clears \<open>isRevoked\<close>.
\<close>

theorem testKeyOrFail_tier_derivation:
  assumes "testKeyOrFail k keyResult creditsResult now keys = Inr keys'"
  shows "\<exists>keyData j. keyResult = Fulfilled (Some keyData) \<and> j < length keys
           \<and> findIndex (\<lambda>x. hash x = hash k) keys = Some j
           \<and> creditLimit (keys' ! j) = kd_limit keyData
           \<and> usage (keys' ! j) = num_or (kd_usage keyData) (Num 0)
           \<and> balance (keys' ! j) = balanceOf creditsResult (kd_limit keyData) (usage (keys' ! j))
           \<and> isFreeTier (keys' ! j) = kd_is_free_tier keyData
           \<and> tier (keys' ! j) = spec_tier (creditLimit (keys' ! j)) (usage (keys' ! j))
                                   (balance (keys' ! j)) (isFreeTier (keys' ! j))
           \<and> isDisabled (keys' ! j) = (tier (keys' ! j) = deadkey)
           \<and> \<not> isRevoked (keys' ! j)"
proof -
  from testKeyOrFail_shape[OF assms] obtain kd where kr: "keyResult = Fulfilled (Some kd)"
    and up: "update (hash k) (probeUpdate kd creditsResult) now keys = Inr keys'" by blast
  from update_shape[OF up] obtain j where jl: "j < length keys"
    and fj: "findIndex (\<lambda>x. hash x = hash k) keys = Some j"
    and ks: "keys' = keys[j := assign (keys ! j) now (probeUpdate kd creditsResult)]" by blast
  have kj: "keys' ! j = assign (keys ! j) now (probeUpdate kd creditsResult)"
    using ks jl by simp
  show ?thesis
    apply (rule exI[of _ kd], rule exI[of _ j])
    unfolding kj assign_probeUpdate using kr jl fj by (simp add: tierOf_spec)
qed

text \<open>
  C3 on a monthly key: limit 50, usage 20 and 12.5 credits give the tier \<open>limited\<close> and
  leave the key enabled.
\<close>

theorem testKeyOrFail_tier_derivation_witness:
  "testKeyOrFail (ex_keys ! 1) (Fulfilled (Some ex_keyData_monthly)) (Fulfilled (Num 12.5)) 2000 ex_keys
     = Inr (ex_keys[1 := (ex_keys ! 1)\<lparr>lastChecked := 2000, isFreeTier := False, balance := Num 12.5,
                          creditLimit := Some (Num 50), usage := Num 20, rpm := Num 0,
                          tier := limited, isDisabled := False, isRevoked := False\<rparr>])
   \<and> spec_tier (Some (Num 50)) (Num 20) (Num 12.5) False = limited
   \<and> (\<exists>keyData j. Fulfilled (Some ex_keyData_monthly) = Fulfilled (Some keyData) \<and> j < length ex_keys
         \<and> findIndex (\<lambda>x. hash x = hash (ex_keys ! 1)) ex_keys = Some j)"
proof -
  let ?after = "ex_keys[1 := (ex_keys ! 1)\<lparr>lastChecked := 2000, isFreeTier := False, balance := Num 12.5,
                          creditLimit := Some (Num 50), usage := Num 20, rpm := Num 0,
                          tier := limited, isDisabled := False, isRevoked := False\<rparr>]"
  have h: "testKeyOrFail (ex_keys ! 1) (Fulfilled (Some ex_keyData_monthly)) (Fulfilled (Num 12.5)) 2000 ex_keys
             = Inr ?after"
    by (simp add: checker_eval)
  have s: "spec_tier (Some (Num 50)) (Num 20) (Num 12.5) False = limited"
    by simp
  from testKeyOrFail_tier_derivation[OF h]
  have "\<exists>keyData j. Fulfilled (Some ex_keyData_monthly) = Fulfilled (Some keyData) \<and> j < length ex_keys
         \<and> findIndex (\<lambda>x. hash x = hash (ex_keys ! 1)) ex_keys = Some j"
    by blast
  with h s show ?thesis by (intro conjI)
qed

text \<open>
  C4.  When the balance lookup fails and the authorization lookup succeeds, the balance
  written is the fallback: with a null credit limit the sentinel 999, and the tier is then
  \<open>unlimited\<close>; with a credit limit, the maximum of 0 and the limit less the usage.
\<close>

theorem testKeyOrFail_fallback_balance:
  assumes "testKeyOrFail k keyResult (Rejected reason) now keys = Inr keys'"
  shows "\<exists>keyData j. keyResult = Fulfilled (Some keyData) \<and> j < length keys
           \<and> findIndex (\<lambda>x. hash x = hash k) keys = Some j
           \<and> (case kd_limit keyData of
                 None \<Rightarrow> balance (keys' ! j) = Num 999 \<and> tier (keys' ! j) = unlimited
               | Some creditLimit' \<Rightarrow>
                   balance (keys' ! j)
                     = Math_max (Num 0) (js_sub creditLimit' (num_or (kd_usage keyData) (Num 0))))"
proof -
  from testKeyOrFail_shape[OF assms] obtain kd where kr: "keyResult = Fulfilled (Some kd)"
    and up: "update (hash k) (probeUpdate kd (Rejected reason)) now keys = Inr keys'" by blast
  from update_shape[OF up] obtain j where jl: "j < length keys"
    and fj: "findIndex (\<lambda>x. hash x = hash k) keys = Some j"
    and ks: "keys' = keys[j := assign (keys ! j) now (probeUpdate kd (Rejected reason))]" by blast
  have kj: "keys' ! j = assign (keys ! j) now (probeUpdate kd (Rejected reason))"
    using ks jl by simp
  show ?thesis
    apply (rule exI[of _ kd], rule exI[of _ j])
    unfolding kj assign_probeUpdate using kr jl fj
    by (simp add: balanceOf_def tierOf_def split: option.splits)
qed

text \<open>
  C4 on the example of the specification: credit limit null, usage 100, balance lookup
  failed.  The key gets the balance 999 and the tier \<open>unlimited\<close>.
\<close>

theorem testKeyOrFail_fallback_balance_witness:
  "testKeyOrFail (ex_keys ! 1) (Fulfilled (Some ex_keyData_prepaid)) (Rejected (AxiosError (Some 500))) 2000 ex_keys
     = Inr (ex_keys[1 := (ex_keys ! 1)\<lparr>lastChecked := 2000, isFreeTier := False, balance := Num 999,
                          creditLimit := None, usage := Num 100, rpm := Num 120,
                          tier := unlimited, isDisabled := False, isRevoked := False\<rparr>])
   \<and> (\<exists>keyData j. Fulfilled (Some ex_keyData_prepaid) = Fulfilled (Some keyData) \<and> j < length ex_keys
         \<and> findIndex (\<lambda>x. hash x = hash (ex_keys ! 1)) ex_keys = Some j)"
proof -
  let ?after = "ex_keys[1 := (ex_keys ! 1)\<lparr>lastChecked := 2000, isFreeTier := False, balance := Num 999,
                          creditLimit := None, usage := Num 100, rpm := Num 120,
                          tier := unlimited, isDisabled := False, isRevoked := False\<rparr>]"
  have h: "testKeyOrFail (ex_keys ! 1) (Fulfilled (Some ex_keyData_prepaid)) (Rejected (AxiosError (Some 500))) 2000 ex_keys
             = Inr ?after"
    by (simp add: checker_eval)
  from testKeyOrFail_fallback_balance[OF h]
  have "\<exists>keyData j. Fulfilled (Some ex_keyData_prepaid) = Fulfilled (Some keyData) \<and> j < length ex_keys
         \<and> findIndex (\<lambda>x. hash x = hash (ex_keys ! 1)) ex_keys = Some j"
    by blast
  with h show ?thesis by (intro conjI)
qed

text \<open>
  C5.  After the update of a successful probe, and after the update that classifies a
  401 or a 402 failure, the credential written satisfies: tier \<open>deadkey\<close> implies
  \<open>isDisabled\<close>.  The update writes the first stored key with the hash of the probed key
  and no other.
\<close>

theorem probe_update_deadkey_disabled:
  assumes "testKeyOrFail k keyResult creditsResult now keys = Inr keys'
           \<or> ((status = 401 \<or> status = 402) \<and> handleAxiosError k (Some status) now keys = Inr keys')"
  shows "\<exists>j<length keys. findIndex (\<lambda>x. hash x = hash k) keys = Some j
           \<and> length keys' = length keys
           \<and> (\<forall>i<length keys. i \<noteq> j \<longrightarrow> keys' ! i = keys ! i)
           \<and> (tier (keys' ! j) = deadkey \<longrightarrow> isDisabled (keys' ! j))"
proof -
  from assms obtain u kd where u: "u = probeUpdate kd creditsResult \<or> u = update401 \<or> u = update402"
    and up: "update (hash k) u now keys = Inr keys'"
  proof
    assume "testKeyOrFail k keyResult creditsResult now keys = Inr keys'"
    from testKeyOrFail_shape[OF this] that show ?thesis by blast
  next
    assume "(status = 401 \<or> status = 402) \<and> handleAxiosError k (Some status) now keys = Inr keys'"
    then have "update (hash k) (if status = 401 then update401 else update402) now keys = Inr keys'"
      by (auto simp: handleAxiosError_def)
    with that[of "if status = 401 then update401 else update402"] show ?thesis by auto
  qed
  from update_shape[OF up] obtain j where jl: "j < length keys"
    and fj: "findIndex (\<lambda>x. hash x = hash k) keys = Some j"
    and ks: "keys' = keys[j := assign (keys ! j) now u]" by blast
  have kj: "keys' ! j = assign (keys ! j) now u"
    using ks jl by simp
  have inv: "tier (keys' ! j) = deadkey \<longrightarrow> isDisabled (keys' ! j)"
    unfolding kj using assign_inv[OF u] by blast
  have others: "\<forall>i<length keys. i \<noteq> j \<longrightarrow> keys' ! i = keys ! i"
    unfolding ks by simp
  have len: "length keys' = length keys"
    unfolding ks by simp
  show ?thesis
    using jl fj len others inv by (intro exI[of _ j] conjI)
qed

text \<open>
  C5 on a 402 answer for the enabled key at position 2: it becomes \<open>deadkey\<close> and
  disabled, with balance 0.
\<close>

theorem probe_update_deadkey_disabled_witness:
  "handleAxiosError (ex_keys ! 2) (Some 402) 2000 ex_keys
     = Inr (ex_keys[2 := (ex_keys ! 2)\<lparr>lastChecked := 2000, balance := Num 0, tier := deadkey,
                          isDisabled := True\<rparr>])
   \<and> (\<exists>j<length ex_keys. findIndex (\<lambda>x. hash x = hash (ex_keys ! 2)) ex_keys = Some j
         \<and> length (ex_keys[2 := (ex_keys ! 2)\<lparr>lastChecked := 2000, balance := Num 0, tier := deadkey,
                          isDisabled := True\<rparr>]) = length ex_keys)
   \<and> tier (ex_keys[2 := (ex_keys ! 2)\<lparr>lastChecked := 2000, balance := Num 0, tier := deadkey,
                          isDisabled := True\<rparr>] ! 2) = deadkey
   \<and> isDisabled (ex_keys[2 := (ex_keys ! 2)\<lparr>lastChecked := 2000, balance := Num 0, tier := deadkey,
                          isDisabled := True\<rparr>] ! 2)"
proof -
  let ?after = "ex_keys[2 := (ex_keys ! 2)\<lparr>lastChecked := 2000, balance := Num 0, tier := deadkey,
                          isDisabled := True\<rparr>]"
  have h: "handleAxiosError (ex_keys ! 2) (Some 402) 2000 ex_keys = Inr ?after"
    by (simp add: checker_eval)
  have "testKeyOrFail (ex_keys ! 2) (Rejected TypeError) (Rejected TypeError) 2000 ex_keys = Inr ?after
           \<or> (((402::int) = 401 \<or> (402::int) = 402) \<and> handleAxiosError (ex_keys ! 2) (Some 402) 2000 ex_keys = Inr ?after)"
    using h by simp
  from probe_update_deadkey_disabled[OF this]
  have "\<exists>j<length ex_keys. findIndex (\<lambda>x. hash x = hash (ex_keys ! 2)) ex_keys = Some j
         \<and> length ?after = length ex_keys"
    by blast
  moreover have "tier (?after ! 2) = deadkey" and "isDisabled (?after ! 2)"
    by (simp_all add: ex_keys_def)
  ultimately show ?thesis using h by (intro conjI)
qed









lemma stopReasonOf_spec: "stopReasonOf fr = spec_stop_reason fr"
  by (cases fr) (simp_all add: stopReasonOf_def)

section \<open>Protocol transformation\<close>



text \<open>
  C9 (as amended).  A canonical response has no first choice exactly when its \<open>choices\<close>
  are missing or empty, and \<open>transformOpenAIToAnthropicResponse\<close> then returns a message
  without content whose \<open>stop_reason\<close> is \<open>error\<close>.  When the response has a first
  choice, the function raises if that choice has no message, and otherwise returns a response
  whose \<open>stop_reason\<close> is the image of the finish reason of that choice under the table
  \<open>length\<close> to \<open>max_tokens\<close>, \<open>stop\<close> to \<open>end_turn\<close>, \<open>tool_calls\<close> to
  \<open>tool_use\<close>, every other or missing finish reason to \<open>end_turn\<close>.
\<close>

theorem anthropic_stop_reason_table:
  "(firstChoice openaiBody = None
      \<longleftrightarrow> resp_choices openaiBody = None \<or> resp_choices openaiBody = Some [])
   \<and> (firstChoice openaiBody = None \<longrightarrow>
        (\<exists>r. transformOpenAIToAnthropicResponse openaiBody = Inr r
            \<and> a_stop_reason r = ''error'' \<and> a_content r = []))
   \<and> (\<forall>choice. firstChoice openaiBody = Some choice \<longrightarrow>
        (ch_message choice = None \<and> transformOpenAIToAnthropicResponse openaiBody = Inl TypeError)
        \<or> (ch_message choice \<noteq> None
            \<and> (\<exists>r. transformOpenAIToAnthropicResponse openaiBody = Inr r
                   \<and> a_stop_reason r = spec_stop_reason (ch_finish_reason choice))))"
proof -
  have a: "firstChoice openaiBody = None
      \<longleftrightarrow> resp_choices openaiBody = None \<or> resp_choices openaiBody = Some []"
    by (simp add: firstChoice_def split: option.splits list.splits)
  have b: "\<exists>r. transformOpenAIToAnthropicResponse openaiBody = Inr r
            \<and> a_stop_reason r = ''error'' \<and> a_content r = []"
    if "firstChoice openaiBody = None"
    using that by (simp add: transformOpenAIToAnthropicResponse_def)
  have c: "(ch_message choice = None \<and> transformOpenAIToAnthropicResponse openaiBody = Inl TypeError)
        \<or> (ch_message choice \<noteq> None
            \<and> (\<exists>r. transformOpenAIToAnthropicResponse openaiBody = Inr r
                   \<and> a_stop_reason r = spec_stop_reason (ch_finish_reason choice)))"
    if f: "firstChoice openaiBody = Some choice" for choice
  proof (cases "ch_message choice")
    case None
    then show ?thesis using f by (simp add: transformOpenAIToAnthropicResponse_def)
  next
    case (Some message)
    then show ?thesis using f
      by (simp add: transformOpenAIToAnthropicResponse_def Let_def stopReasonOf_spec)
  qed
  show ?thesis using a b c by blast
qed

text \<open>
  The amended C9 on a response whose first choice finished with \<open>length\<close>, and on a
  response that carries no \<open>choices\<close> at all.
\<close>

theorem anthropic_stop_reason_table_witness:
  "firstChoice (ex_response [ex_choice]) = Some ex_choice
   \<and> (\<exists>r. transformOpenAIToAnthropicResponse (ex_response [ex_choice]) = Inr r
          \<and> a_stop_reason r = ''max_tokens'')
   \<and> firstChoice ((ex_response [])\<lparr>resp_choices := None\<rparr>) = None
   \<and> (\<exists>r. transformOpenAIToAnthropicResponse ((ex_response [])\<lparr>resp_choices := None\<rparr>) = Inr r
          \<and> a_stop_reason r = ''error'' \<and> a_content r = [])"
proof -
  have h: "firstChoice (ex_response [ex_choice]) = Some ex_choice"
    by (simp add: firstChoice_def ex_response_def)
  have m: "ch_message ex_choice \<noteq> None" and f: "spec_stop_reason (ch_finish_reason ex_choice) = ''max_tokens''"
    by (simp_all add: ex_choice_def)
  from anthropic_stop_reason_table[of "ex_response [ex_choice]"] h m f
  have one: "\<exists>r. transformOpenAIToAnthropicResponse (ex_response [ex_choice]) = Inr r
          \<and> a_stop_reason r = ''max_tokens''"
    by auto
  have n: "firstChoice ((ex_response [])\<lparr>resp_choices := None\<rparr>) = None"
    by (simp add: firstChoice_def)
  from anthropic_stop_reason_table[of "(ex_response [])\<lparr>resp_choices := None\<rparr>"] n
  have two: "\<exists>r. transformOpenAIToAnthropicResponse ((ex_response [])\<lparr>resp_choices := None\<rparr>) = Inr r
          \<and> a_stop_reason r = ''error'' \<and> a_content r = []"
    by blast
  from h one n two show ?thesis by (intro conjI)
qed

text \<open>
  C9 as stated fails: a response with an empty list of choices has no finish reason, which
  the table sends to \<open>end_turn\<close>, and the response produced has the stop reason
  \<open>error\<close>.
\<close>

theorem anthropic_stop_reason_counterexample:
  "transformOpenAIToAnthropicResponse (ex_response [])
     = Inr \<lparr>a_id = Some ''gen-1'', a_type = ''message'', a_role = ''assistant'', a_content = [],
            a_model = Some ''openai/gpt-4o'', a_stop_reason = ''error'', a_has_stop_sequence = False,
            a_input_tokens = 0, a_output_tokens = 0\<rparr>
   \<and> spec_stop_reason None = ''end_turn''
   \<and> ''error'' \<noteq> spec_stop_reason None"
  by (simp add: transformOpenAIToAnthropicResponse_def firstChoice_def ex_response_def str_or_def)

text \<open>
  C10.  Whenever the schema accepts \<open>generationConfig.maxOutputTokens\<close>, the parsed value
  is at most the configured maximum: a supplied integer parses to the minimum of itself and
  the maximum, and a supplied value that is not an integer, or not a number, is rejected.
  When the field is absent (or the whole \<open>generationConfig\<close> is), the default 16 is clamped
  like a supplied value: the parsed value is the minimum of 16 and the configured maximum, so
  at most 16, and it is 16 when the maximum is at least 16.
\<close>

theorem maxOutputTokens_clamped:
  "(\<forall>v. parseGenerationConfigMaxOutputTokens GOOGLEAI_OUTPUT_MAX generationConfig = Inr v
        \<longrightarrow> v \<le> GOOGLEAI_OUTPUT_MAX)
   \<and> (\<forall>requested. parseGenerationConfigMaxOutputTokens GOOGLEAI_OUTPUT_MAX
                       (Some (Some (Num (of_int requested))))
                     = Inr (min requested GOOGLEAI_OUTPUT_MAX))
   \<and> (\<forall>r. r \<noteq> of_int \<lfloor>r\<rfloor> \<longrightarrow>
          parseGenerationConfigMaxOutputTokens GOOGLEAI_OUTPUT_MAX (Some (Some (Num r)))
            = Inl expected_integer)
   \<and> parseGenerationConfigMaxOutputTokens GOOGLEAI_OUTPUT_MAX (Some (Some NaN)) = Inl expected_number
   \<and> parseGenerationConfigMaxOutputTokens GOOGLEAI_OUTPUT_MAX None = Inr (min 16 GOOGLEAI_OUTPUT_MAX)
   \<and> parseGenerationConfigMaxOutputTokens GOOGLEAI_OUTPUT_MAX (Some None) = Inr (min 16 GOOGLEAI_OUTPUT_MAX)
   \<and> min 16 GOOGLEAI_OUTPUT_MAX \<le> 16
   \<and> (16 \<le> GOOGLEAI_OUTPUT_MAX
        \<longrightarrow> parseGenerationConfigMaxOutputTokens GOOGLEAI_OUTPUT_MAX (Some None) = Inr 16)"
proof -
  have a: "\<forall>v. parseGenerationConfigMaxOutputTokens GOOGLEAI_OUTPUT_MAX generationConfig = Inr v
              \<longrightarrow> v \<le> GOOGLEAI_OUTPUT_MAX"
    by (auto simp: parseGenerationConfigMaxOutputTokens_def parseMaxOutputTokens_def split: sum.splits)
  have z: "zod_number_int (Num 16) = Inr 16"
    by (simp add: zod_number_int_def)
  have zi: "zod_number_int (Num (of_int requested)) = Inr requested" for requested
    by (simp add: zod_number_int_def)
  have zr: "zod_number_int (Num r) = Inl expected_integer" if "r \<noteq> of_int \<lfloor>r\<rfloor>" for r
    using that by (simp add: zod_number_int_def)
  have zn: "zod_number_int NaN = Inl expected_number"
    by (simp add: zod_number_int_def)
  have i: "\<forall>requested. parseGenerationConfigMaxOutputTokens GOOGLEAI_OUTPUT_MAX
                       (Some (Some (Num (of_int requested))))
                     = Inr (min requested GOOGLEAI_OUTPUT_MAX)"
    by (simp add: parseGenerationConfigMaxOutputTokens_def parseMaxOutputTokens_def orElse_def zi)
  have r: "\<forall>r. r \<noteq> of_int \<lfloor>r\<rfloor> \<longrightarrow>
          parseGenerationConfigMaxOutputTokens GOOGLEAI_OUTPUT_MAX (Some (Some (Num r)))
            = Inl expected_integer"
    by (simp add: parseGenerationConfigMaxOutputTokens_def parseMaxOutputTokens_def orElse_def zr)
  have n: "parseGenerationConfigMaxOutputTokens GOOGLEAI_OUTPUT_MAX (Some (Some NaN)) = Inl expected_number"
    by (simp add: parseGenerationConfigMaxOutputTokens_def parseMaxOutputTokens_def orElse_def zn)
  have b: "parseGenerationConfigMaxOutputTokens GOOGLEAI_OUTPUT_MAX None = Inr (min 16 GOOGLEAI_OUTPUT_MAX)"
    and c: "parseGenerationConfigMaxOutputTokens GOOGLEAI_OUTPUT_MAX (Some None) = Inr (min 16 GOOGLEAI_OUTPUT_MAX)"
    by (simp_all add: parseGenerationConfigMaxOutputTokens_def parseMaxOutputTokens_def orElse_def z)
  have d: "min 16 GOOGLEAI_OUTPUT_MAX \<le> 16"
    by simp
  have e: "16 \<le> GOOGLEAI_OUTPUT_MAX
        \<longrightarrow> parseGenerationConfigMaxOutputTokens GOOGLEAI_OUTPUT_MAX (Some None) = Inr 16"
    using c by simp
  from a i r n b c d e show ?thesis by (intro conjI)
qed

text \<open>
  C10 with the maximum 8192: a request for 100000 tokens is clamped to 8192, a request for
  5 tokens keeps its 5, a request for 2.5 tokens is rejected, and a request that names no
  \<open>maxOutputTokens\<close> gets 16.  With the maximum 8, such a request gets 8.
\<close>

theorem maxOutputTokens_clamped_witness:
  "parseGenerationConfigMaxOutputTokens 8192 (Some (Some (Num 100000))) = Inr 8192
   \<and> parseGenerationConfigMaxOutputTokens 8192 (Some (Some (Num 5))) = Inr 5
   \<and> parseGenerationConfigMaxOutputTokens 8192 (Some (Some (Num 2.5))) = Inl expected_integer
   \<and> parseGenerationConfigMaxOutputTokens 8192 (Some None) = Inr 16
   \<and> parseGenerationConfigMaxOutputTokens 8 None = Inr 8"
proof -
  note t = maxOutputTokens_clamped[of 8192 None]
  from t have "parseGenerationConfigMaxOutputTokens 8192 (Some (Some (Num (of_int 100000)))) = Inr (min 100000 8192)"
    by blast
  then have h: "parseGenerationConfigMaxOutputTokens 8192 (Some (Some (Num 100000))) = Inr 8192"
    by simp
  from t have "parseGenerationConfigMaxOutputTokens 8192 (Some (Some (Num (of_int 5)))) = Inr (min 5 8192)"
    by blast
  then have l: "parseGenerationConfigMaxOutputTokens 8192 (Some (Some (Num 5))) = Inr 5"
    by simp
  have nr: "(2.5::real) \<noteq> of_int \<lfloor>2.5::real\<rfloor>"
    by simp
  from t nr have f: "parseGenerationConfigMaxOutputTokens 8192 (Some (Some (Num 2.5))) = Inl expected_integer"
    by blast
  from t have a: "parseGenerationConfigMaxOutputTokens 8192 (Some None) = Inr 16"
    by simp
  from maxOutputTokens_clamped[of 8 None]
  have b: "parseGenerationConfigMaxOutputTokens 8 None = Inr 8"
    by simp
  from h l f a b show ?thesis by (intro conjI)
qed

end
